theory Spec2Isabelle
  imports Main
begin

section \<open>Python values, exceptions and effects\<close>

text \<open>
  The setup file is read with \<^verbatim>\<open>json.load\<close>, so the setup document is a JSON value.
  A JSON object becomes a Python dict; it is kept as an association list that is read
  with \<open>map_of\<close>. Numbers are never inspected by the server and are kept as their text.
\<close>

datatype json =
    JNull
  | JBool bool
  | JNumber string
  | JStr string
  | JArr "json list"
  | JObj "(string \<times> json) list"

text \<open>
  The exceptions that the server raises itself or lets through from the code it calls.
  \<open>CancelledError\<close> and the exceptions of \<open>OtherBaseException\<close> (KeyboardInterrupt,
  SystemExit) derive from BaseException only: a clause \<^verbatim>\<open>except Exception\<close> does not
  catch them.
\<close>

datatype py_exception =
    KeyError json
  | TypeError
  | AttributeError
  | RuntimeError string
  | FileNotFoundError
  | IsADirectoryError
  | HTTPNotFound string
  | CancelledError
  | OtherException string
  | OtherBaseException string

fun is_Exception :: "py_exception \<Rightarrow> bool" where
  "is_Exception CancelledError = False"
| "is_Exception (OtherBaseException _) = False"
| "is_Exception _ = True"

datatype task = Task nat

datatype modbus_server_class =
  ModbusSerialServer | ModbusTcpServer | ModbusTlsServer | ModbusUdpServer

datatype modbus_framer_class =
  ModbusAsciiFramer | ModbusBinaryFramer | ModbusRtuFramer | ModbusSocketFramer | ModbusTlsFramer

text \<open>
  What a run does to the world outside, in the order in which it does it. An event
  stands for the call being made, whether or not the call then raises.
  \<open>LogError prefix exc\<close> is the line \<^verbatim>\<open>f"{prefix}{exc}"\<close>.
\<close>

datatype event =
    LogInfo string
  | LogError string py_exception
  | LoadSetup string
  | ImportModule string
  | BuildContext
  | ConstructServer modbus_server_class modbus_framer_class
  | ServerStart
  | CreateTask
  | CancelTask task
  | AwaitTask task
  | RunnerSetup
  | SiteStart string int
  | LoopRunForever
  | FileOpen string

text \<open>
  A call returns, raises, or (an \<^verbatim>\<open>await\<close> on something that never completes) does
  neither.
\<close>

datatype 'a result = Return 'a | Raise py_exception | Diverge

type_synonym 'a run = "'a result \<times> event list"

fun seq :: "'a run \<Rightarrow> ('a \<Rightarrow> 'b run) \<Rightarrow> 'b run" where
  "seq (Return x, ev) f = (case f x of (r, ev') \<Rightarrow> (r, ev @ ev'))"
| "seq (Raise e, ev) f = (Raise e, ev)"
| "seq (Diverge, ev) f = (Diverge, ev)"

fun effect :: "event list \<Rightarrow> py_exception + 'a \<Rightarrow> 'a run" where
  "effect ev (Inl e) = (Raise e, ev)"
| "effect ev (Inr x) = (Return x, ev)"

section \<open>Dictionaries\<close>

text \<open>\<^verbatim>\<open>obj[key]\<close> with a string key, on a value of the setup document.\<close>

fun getitem :: "json \<Rightarrow> string \<Rightarrow> py_exception + json" where
  "getitem (JObj kvs) k =
     (case map_of kvs k of None \<Rightarrow> Inl (KeyError (JStr k)) | Some v \<Rightarrow> Inr v)"
| "getitem _ k = Inl TypeError"

text \<open>
  \<^verbatim>\<open>obj.pop(key)\<close>: the value and the object without the key. A list has a \<open>pop\<close>
  that wants an integer; the other values have no \<open>pop\<close>.
\<close>

fun pop :: "json \<Rightarrow> string \<Rightarrow> py_exception + (json \<times> (string \<times> json) list)" where
  "pop (JObj kvs) k =
     (case map_of kvs k of
        None \<Rightarrow> Inl (KeyError (JStr k))
      | Some v \<Rightarrow> Inr (v, filter (\<lambda>kv. fst kv \<noteq> k) kvs))"
| "pop (JArr _) k = Inl TypeError"
| "pop _ k = Inl AttributeError"

text \<open>
  \<^verbatim>\<open>table[key]\<close> on one of the two constructor tables, whose keys are strings. A list
  or a dict is not hashable.
\<close>

fun lookup :: "(string \<times> 'a) list \<Rightarrow> json \<Rightarrow> py_exception + 'a" where
  "lookup table (JStr s) =
     (case map_of table s of None \<Rightarrow> Inl (KeyError (JStr s)) | Some c \<Rightarrow> Inr c)"
| "lookup table (JArr _) = Inl TypeError"
| "lookup table (JObj _) = Inl TypeError"
| "lookup table v = Inl (KeyError v)"

text \<open>
  The exception of \<^verbatim>\<open>table[key]\<close> for a key that the table does not have: a list or a
  dict cannot be hashed, any other value is reported as the missing key.
\<close>

fun key_error :: "json \<Rightarrow> py_exception" where
  "key_error (JArr _) = TypeError"
| "key_error (JObj _) = TypeError"
| "key_error v = KeyError v"

definition comm_class :: "(string \<times> modbus_server_class) list" where
  "comm_class =
     [(''serial'', ModbusSerialServer),
      (''tcp'', ModbusTcpServer),
      (''tls'', ModbusTlsServer),
      (''udp'', ModbusUdpServer)]"

definition framer_class :: "(string \<times> modbus_framer_class) list" where
  "framer_class =
     [(''ascii'', ModbusAsciiFramer),
      (''binary'', ModbusBinaryFramer),
      (''rtu'', ModbusRtuFramer),
      (''socket'', ModbusSocketFramer),
      (''tls'', ModbusTlsFramer)]"

section \<open>The collaborators of the server\<close>

text \<open>
  The value handed to the datastore as its custom actions: the dict read from the
  imported module, or the argument itself when it is \<open>None\<close> or empty.
\<close>

datatype custom_actions = Unchanged "string option" | ActionsDict "string list"

datatype py_module = Module (custom_actions_dict: "string list option")

datatype simulator_context = ModbusSimulatorContext json custom_actions

datatype server_context = ModbusServerContext (slaves: simulator_context) (single: bool)

datatype server_object =
  ServerObject modbus_server_class modbus_framer_class server_context "(string \<times> json) list"

text \<open>
  The code around the server that is not part of it: whether aiohttp could be
  imported, the reading and parsing of the setup file, \<^verbatim>\<open>importlib.import_module\<close>,
  the constructors of the datastore and of the protocol servers (\<open>None\<close>: the object is
  built), and the directory of the module (\<^verbatim>\<open>os.path.dirname(__file__)\<close>).
\<close>

record environment =
  web_installed :: bool
  load_json :: "string \<Rightarrow> py_exception + json"
  import_module :: "string \<Rightarrow> py_exception + py_module"
  simulator_context_init :: "json \<Rightarrow> custom_actions \<Rightarrow> py_exception option"
  server_init ::
    "modbus_server_class \<Rightarrow> modbus_framer_class \<Rightarrow> server_context \<Rightarrow> (string \<times> json) list
      \<Rightarrow> py_exception option"
  dirname_file :: string

text \<open>\<^verbatim>\<open>os.path.join(a, b)\<close> of posixpath.\<close>

definition path_join :: "string \<Rightarrow> string \<Rightarrow> string" where
  "path_join a b =
     (if take 1 b = ''/'' then b
      else if a = [] \<or> last a = CHR ''/'' then a @ b
      else a @ ''/'' @ b)"

section \<open>The HTTP application\<close>

datatype http_method = GET | HEAD | POST | OtherMethod string

text \<open>The two kinds of path in the route table: a fixed path, and \<^verbatim>\<open>/{tail:.*}\<close>.\<close>

datatype pattern = Plain string | Tail

datatype handler = HandleHtml | HandleApi | HandleApiData | HandleApiRequest

datatype route_def = RouteDef (route_methods: "http_method list") (route_pattern: pattern)
  (route_handler: handler)

text \<open>\<^verbatim>\<open>web.get\<close> registers the handler for GET and, by its default, for HEAD.\<close>

definition web_get :: "pattern \<Rightarrow> handler \<Rightarrow> route_def" where
  "web_get p h = RouteDef [GET, HEAD] p h"

definition web_post :: "pattern \<Rightarrow> handler \<Rightarrow> route_def" where
  "web_post p h = RouteDef [POST] p h"

datatype hook = StartModbusServer | StopModbusServer

record web_application =
  routes :: "route_def list"
  on_startup :: "hook list"
  on_shutdown :: "hook list"

record simulator =
  datastore :: server_context
  modbus_server :: server_object
  log_file :: string
  site :: "(string \<times> int) option"
  http_host :: string
  http_port :: int
  web_path :: string
  web_app :: web_application

section \<open>Construction\<close>

text \<open>The list given to \<^verbatim>\<open>add_routes\<close>.\<close>

definition route_table :: "route_def list" where
  "route_table =
     [web_get Tail HandleHtml,
      web_post (Plain ''/api'') HandleApi,
      web_post (Plain ''/api/data'') HandleApiData,
      web_post (Plain ''/api/request'') HandleApiRequest]"

text \<open>Lines 97 to 99: the custom actions, when a module is named.\<close>

definition load_custom_actions :: "environment \<Rightarrow> string option \<Rightarrow> custom_actions run" where
  "load_custom_actions env custom_actions_module =
     (case custom_actions_module of
        None \<Rightarrow> (Return (Unchanged None), [])
      | Some name \<Rightarrow>
          if name = [] then (Return (Unchanged (Some name)), [])
          else
            seq (effect [ImportModule name] (import_module env name)) (\<lambda>actions_module.
            effect []
              (case custom_actions_dict actions_module of
                 None \<Rightarrow> Inl AttributeError
               | Some d \<Rightarrow> Inr (ActionsDict d))))"

text \<open>
  Lines 104 to 106: the two keys are taken out of the server profile and looked up in
  the tables, and the class found is called with the framer, the datastore and what is
  left of the profile as keyword arguments.
\<close>

definition make_modbus_server :: "environment \<Rightarrow> json \<Rightarrow> server_context \<Rightarrow> server_object run" where
  "make_modbus_server env server ds =
     seq (effect [] (pop server ''comm'')) (\<lambda>(comm_key, server1).
     seq (effect [] (lookup comm_class comm_key)) (\<lambda>comm.
     seq (effect [] (pop (JObj server1) ''framer'')) (\<lambda>(framer_key, server2).
     seq (effect [] (lookup framer_class framer_key)) (\<lambda>framer.
     effect [ConstructServer comm framer]
       (case server_init env comm framer ds server2 of
          Some e \<Rightarrow> Inl e
        | None \<Rightarrow> Inr (ServerObject comm framer ds server2))))))"

text \<open>
  \<^verbatim>\<open>ModbusSimulatorServer.__init__\<close>. The arguments are, in the order of the source,
  \<open>modbus_server\<close>, \<open>modbus_device\<close>, \<open>http_host\<close>, \<open>http_port\<close>, \<open>log_file\<close>,
  \<open>json_file\<close> and \<open>custom_actions_module\<close>; the first two are called \<open>server_name\<close> and
  \<open>device_name\<close> here.
\<close>

definition init ::
  "environment \<Rightarrow> string \<Rightarrow> string \<Rightarrow> string \<Rightarrow> int \<Rightarrow> string \<Rightarrow> string \<Rightarrow> string option
    \<Rightarrow> simulator run" where
  "init env server_name device_name host port logfile json_file custom_actions_module =
     (if \<not> web_installed env then (Raise (RuntimeError ''aiohttp not installed!''), [])
      else
        seq (effect [LoadSetup json_file] (load_json env json_file)) (\<lambda>setup.
        seq (load_custom_actions env custom_actions_module) (\<lambda>actions.
        seq (effect [] (getitem setup ''server_list'')) (\<lambda>server_list.
        seq (effect [] (getitem server_list server_name)) (\<lambda>server.
        seq (effect [] (getitem setup ''device_list'')) (\<lambda>device_list.
        seq (effect [] (getitem device_list device_name)) (\<lambda>device.
        seq (effect [BuildContext]
               (case simulator_context_init env device actions of
                  Some e \<Rightarrow> Inl e
                | None \<Rightarrow> Inr (ModbusSimulatorContext device actions))) (\<lambda>context.
        seq (make_modbus_server env server (ModbusServerContext context True))
          (\<lambda>server_obj.
        (Return
           \<lparr>datastore = ModbusServerContext context True,
            modbus_server = server_obj,
            log_file = logfile,
            site = None,
            http_host = host,
            http_port = port,
            web_path = path_join (dirname_file env) ''web'',
            web_app =
              \<lparr>routes = route_table,
               on_startup = [StartModbusServer],
               on_shutdown = [StopModbusServer]\<rparr>\<rparr>, []))))))))))"

section \<open>The life cycle\<close>

text \<open>
  What the running system answers to the server: whether the protocol server has a
  \<open>start\<close> method and how awaiting it ends, how \<^verbatim>\<open>asyncio.create_task\<close> on the
  coroutine of \<open>serve_forever\<close> ends, how awaiting a task ends, how the start of the
  TCP site ends, how \<^verbatim>\<open>loop.run_forever\<close> ends, and what \<^verbatim>\<open>open\<close> does on a path
  (\<open>None\<close>: the file is opened).
\<close>

record runtime =
  has_start :: bool
  start :: "unit result"
  create_task :: "task result"
  await_task :: "task \<Rightarrow> unit result"
  site_start :: "unit result"
  loop_run_forever :: "unit result"
  open_file :: "string \<Rightarrow> py_exception option"

text \<open>The mapping interface of the application object, \<^verbatim>\<open>app[key]\<close>.\<close>

type_synonym app_state = "string \<Rightarrow> task option"

definition app_getitem :: "app_state \<Rightarrow> string \<Rightarrow> py_exception + task" where
  "app_getitem app k = (case app k of None \<Rightarrow> Inl (KeyError (JStr k)) | Some t \<Rightarrow> Inr t)"

text \<open>
  A \<^verbatim>\<open>try\<close> block with the clause \<^verbatim>\<open>except Exception as exc\<close> that logs
  \<^verbatim>\<open>f"{prefix}{exc}"\<close> as an error and raises \<open>exc\<close> again.
\<close>

fun log_and_reraise :: "string \<Rightarrow> 'a run \<Rightarrow> 'a run" where
  "log_and_reraise prefix (Raise exc, ev) =
     (if is_Exception exc then (Raise exc, ev @ [LogError prefix exc]) else (Raise exc, ev))"
| "log_and_reraise prefix (r, ev) = (r, ev)"

definition start_modbus_server :: "runtime \<Rightarrow> app_state \<Rightarrow> app_state run" where
  "start_modbus_server rt app =
     seq (log_and_reraise ''Error starting modbus server, reason: ''
            (seq (if has_start rt then (start rt, [ServerStart]) else (Return (), [])) (\<lambda>_.
             seq (create_task rt, [CreateTask]) (\<lambda>t.
             (Return (app(''modbus_server'' \<mapsto> t)), [])))))
       (\<lambda>app'. (Return app', [LogInfo ''Modbus server started'']))"

definition stop_modbus_server :: "runtime \<Rightarrow> app_state \<Rightarrow> app_state run" where
  "stop_modbus_server rt app =
     seq (Return (), [LogInfo ''Stopping modbus server'']) (\<lambda>_.
     seq (effect [] (app_getitem app ''modbus_server'')) (\<lambda>t.
     seq (Return (), [CancelTask t]) (\<lambda>_.
     seq (effect [] (app_getitem app ''modbus_server'')) (\<lambda>t'.
     seq (await_task rt t', [AwaitTask t']) (\<lambda>_.
     (Return app, [LogInfo ''Modbus server Stopped''])))))) "

fun run_hook :: "runtime \<Rightarrow> hook \<Rightarrow> app_state \<Rightarrow> app_state run" where
  "run_hook rt StartModbusServer app = start_modbus_server rt app"
| "run_hook rt StopModbusServer app = stop_modbus_server rt app"

text \<open>
  Modelled from the spec: the startup and shutdown signals of the aiohttp application,
  which are not part of the repository. Section 5 has the hooks of one application
  object run as ordered lifecycle hooks: each is awaited to its end before the next
  one starts, and a hook that raises ends the signal with that exception.
\<close>

fun send :: "runtime \<Rightarrow> hook list \<Rightarrow> app_state \<Rightarrow> app_state run" where
  "send rt [] app = (Return app, [])"
| "send rt (h # hs) app = seq (run_hook rt h app) (\<lambda>app'. send rt hs app')"

text \<open>
  \<^verbatim>\<open>run_forever\<close>. \<open>RunnerSetup\<close> is \<^verbatim>\<open>runner.setup()\<close>, which sends the startup
  signal of the application; \<open>SiteStart host port\<close> is the assignment of the new
  \<^verbatim>\<open>web.TCPSite\<close> to \<open>self.site\<close> followed by \<^verbatim>\<open>self.site.start()\<close>, the call that
  opens the listening socket.
\<close>

definition run_forever :: "simulator \<Rightarrow> runtime \<Rightarrow> app_state \<Rightarrow> unit run" where
  "run_forever self rt app =
     seq (log_and_reraise ''Error starting http server, reason: ''
            (seq (Return (), [RunnerSetup]) (\<lambda>_.
             seq (send rt (on_startup (web_app self)) app) (\<lambda>app'.
             seq (site_start rt, [SiteStart (http_host self) (http_port self)]) (\<lambda>_.
             (Return (), []))))))
       (\<lambda>_. seq (Return (), [LogInfo ''HTTP server started'']) (\<lambda>_.
             (loop_run_forever rt, [LoopRunForever])))"

section \<open>The request handlers\<close>

type_synonym multidict = "(string \<times> string) list"

text \<open>
  A request: its method, its path, and how \<^verbatim>\<open>await request.post()\<close> ends on it.
\<close>

record request =
  req_method :: http_method
  req_path :: string
  req_post :: "multidict result"

text \<open>
  The text of a response: a literal, or a literal followed by \<open>str\<close> of the posted
  data (\<^verbatim>\<open>f"got api {data}"\<close>).
\<close>

datatype response_text = Text string | TextAndData string multidict

datatype response = Response response_text | FileResponse string

definition handle_html :: "simulator \<Rightarrow> runtime \<Rightarrow> request \<Rightarrow> response run" where
  "handle_html self rt req =
     (let page = (if drop 1 (req_path req) = [] then ''index.html'' else drop 1 (req_path req));
          file = path_join (web_path self) page
      in case open_file rt file of
           None \<Rightarrow> (Return (FileResponse file), [FileOpen file])
         | Some exc \<Rightarrow>
             if exc = FileNotFoundError \<or> exc = IsADirectoryError
             then (Raise (HTTPNotFound ''File not found''), [FileOpen file])
             else (Raise exc, [FileOpen file]))"

definition handle_api :: "request \<Rightarrow> response run" where
  "handle_api req =
     seq (req_post req, []) (\<lambda>data. (Return (Response (TextAndData ''got api '' data)), []))"

definition handle_api_data :: "request \<Rightarrow> response run" where
  "handle_api_data req =
     seq (req_post req, []) (\<lambda>data. (Return (Response (Text ''got api data'')), []))"

definition handle_api_request :: "request \<Rightarrow> response run" where
  "handle_api_request req =
     seq (req_post req, []) (\<lambda>data. (Return (Response (Text ''got api request'')), []))"

section \<open>The route table\<close>

text \<open>
  A fixed path matches itself. \<^verbatim>\<open>/{tail:.*}\<close> matches a slash followed by anything
  that the regular expression \<^verbatim>\<open>.*\<close> matches in full: any text without a newline.
\<close>

fun matches :: "pattern \<Rightarrow> string \<Rightarrow> bool" where
  "matches (Plain s) p = (p = s)"
| "matches Tail p = (take 1 p = ''/'' \<and> CHR 0x0A \<notin> set (drop 1 p))"

text \<open>
  Modelled from the spec: the dispatch of aiohttp's router, which is not part of the
  repository. Section 4.6 gives it as a table from method and path pattern to handler;
  the routes are tried in the order of their registration and the first one whose
  path and method both match is taken. \<open>None\<close>: no route, the framework answers by
  itself.
\<close>

definition resolve :: "route_def list \<Rightarrow> http_method \<Rightarrow> string \<Rightarrow> handler option" where
  "resolve rs m p =
     map_option route_handler
       (find (\<lambda>r. m \<in> set (route_methods r) \<and> matches (route_pattern r) p) rs)"

fun call_handler :: "simulator \<Rightarrow> runtime \<Rightarrow> handler \<Rightarrow> request \<Rightarrow> response run" where
  "call_handler self rt HandleHtml req = handle_html self rt req"
| "call_handler self rt HandleApi req = handle_api req"
| "call_handler self rt HandleApiData req = handle_api_data req"
| "call_handler self rt HandleApiRequest req = handle_api_request req"

definition serve :: "simulator \<Rightarrow> runtime \<Rightarrow> request \<Rightarrow> response run option" where
  "serve self rt req =
     map_option (\<lambda>h. call_handler self rt h req)
       (resolve (routes (web_app self)) (req_method req) (req_path req))"

section \<open>Notions of the specification\<close>

text \<open>
  Staying within the asset root, as the specification asks of a resolved path: the
  path is cut at the slashes, empty and \<open>.\<close> segments are dropped, a \<open>..\<close> segment
  removes the segment before it, and what is left has to start with the segments of
  the root. The server has no function of this kind.
\<close>

fun split_path :: "string \<Rightarrow> string list" where
  "split_path [] = [[]]"
| "split_path (c # cs) =
     (if c = CHR ''/'' then [] # split_path cs
      else (case split_path cs of [] \<Rightarrow> [[c]] | s # ss \<Rightarrow> (c # s) # ss))"

fun resolve_segments :: "string list \<Rightarrow> string list \<Rightarrow> string list" where
  "resolve_segments stack [] = rev stack"
| "resolve_segments stack (s # ss) =
     (if s = [] \<or> s = ''.'' then resolve_segments stack ss
      else if s = ''..'' then resolve_segments (tl stack) ss
      else resolve_segments (s # stack) ss)"

definition spec_within_root :: "string \<Rightarrow> string \<Rightarrow> bool" where
  "spec_within_root root file =
     (let r = resolve_segments [] (split_path root);
          f = resolve_segments [] (split_path file)
      in take (length r) f = r)"

section \<open>A sample installation\<close>

text \<open>
  A setup document with one TCP server and one device, the collaborators that accept
  it, and the server object that the constructor builds from them. The sample runtime
  has a protocol server with a \<open>start\<close> method, a task that ends with the cancellation
  signal when it is awaited after its cancellation, and two files that can be opened.
\<close>

definition sample_setup :: json where
  "sample_setup =
     JObj [(''server_list'',
            JObj [(''server'',
                   JObj [(''comm'', JStr ''tcp''), (''framer'', JStr ''socket''),
                         (''host'', JStr ''0.0.0.0''), (''port'', JNumber ''5020'')])]),
           (''device_list'', JObj [(''device'', JObj [])])]"

definition sample_env :: environment where
  "sample_env =
     \<lparr>web_installed = True,
      load_json = (\<lambda>f. if f = ''setup.json'' then Inr sample_setup else Inl FileNotFoundError),
      import_module = (\<lambda>m. Inl (OtherException ''ModuleNotFoundError'')),
      simulator_context_init = (\<lambda>device actions. None),
      server_init = (\<lambda>comm framer ds kwargs. None),
      dirname_file = ''/srv/simulator''\<rparr>"

text \<open>The same installation with a setup file that names a transport the server does not have.\<close>

definition modem_setup :: json where
  "modem_setup =
     JObj [(''server_list'',
            JObj [(''server'', JObj [(''comm'', JStr ''modem''), (''framer'', JStr ''socket'')])]),
           (''device_list'', JObj [(''device'', JObj [])])]"

definition modem_env :: environment where
  "modem_env = sample_env\<lparr>load_json := (\<lambda>f. Inr modem_setup)\<rparr>"

text \<open>And with one that names a framer the server does not have.\<close>

definition morse_setup :: json where
  "morse_setup =
     JObj [(''server_list'',
            JObj [(''server'', JObj [(''comm'', JStr ''tcp''), (''framer'', JStr ''morse'')])]),
           (''device_list'', JObj [(''device'', JObj [])])]"

definition morse_env :: environment where
  "morse_env = sample_env\<lparr>load_json := (\<lambda>f. Inr morse_setup)\<rparr>"

definition sample_datastore :: server_context where
  "sample_datastore = ModbusServerContext (ModbusSimulatorContext (JObj []) (Unchanged None)) True"

definition sample_simulator :: simulator where
  "sample_simulator =
     \<lparr>datastore = sample_datastore,
      modbus_server =
        ServerObject ModbusTcpServer ModbusSocketFramer sample_datastore
          [(''host'', JStr ''0.0.0.0''), (''port'', JNumber ''5020'')],
      log_file = ''server.log'',
      site = None,
      http_host = ''localhost'',
      http_port = 8080,
      web_path = ''/srv/simulator/web'',
      web_app =
        \<lparr>routes = route_table,
         on_startup = [StartModbusServer],
         on_shutdown = [StopModbusServer]\<rparr>\<rparr>"

definition sample_runtime :: runtime where
  "sample_runtime =
     \<lparr>has_start = True,
      start = Return (),
      create_task = Return (Task 1),
      await_task = (\<lambda>t. Raise CancelledError),
      site_start = Return (),
      loop_run_forever = Diverge,
      open_file =
        (\<lambda>p. if p = ''/srv/simulator/web/index.html'' \<or> p = ''/srv/simulator/web/../../etc/passwd''
             then None else Some FileNotFoundError)\<rparr>"

definition sample_request :: "http_method \<Rightarrow> string \<Rightarrow> request" where
  "sample_request m p = \<lparr>req_method = m, req_path = p, req_post = Return [(''a'', ''1'')]\<rparr>"

section \<open>Sequencing\<close>

lemma seq_ReturnE:
  assumes "seq m f = (Return y, ev)"
  obtains x ev1 ev2 where "m = (Return x, ev1)" "f x = (Return y, ev2)" "ev = ev1 @ ev2"
proof (cases m)
  case (Pair r ev1)
  with assms show ?thesis
    by (cases r) (auto split: prod.splits intro: that)
qed

lemma init_sample:
  "init sample_env ''server'' ''device'' ''localhost'' 8080 ''server.log'' ''setup.json'' None
     = (Return sample_simulator,
        [LoadSetup ''setup.json'', BuildContext, ConstructServer ModbusTcpServer ModbusSocketFramer])"
  by (simp add: init_def sample_env_def sample_setup_def load_custom_actions_def
      make_modbus_server_def comm_class_def framer_class_def sample_simulator_def
      sample_datastore_def path_join_def)

lemma init_Return:
  assumes "init env server_name device_name host port logfile json_file cam = (Return self, ev)"
  shows "web_app self = \<lparr>routes = route_table, on_startup = [StartModbusServer],
            on_shutdown = [StopModbusServer]\<rparr>"
    and "http_host self = host" and "http_port self = port"
    and "web_path self = path_join (dirname_file env) ''web''"
proof -
  from assms have w: "web_installed env"
    by (auto simp: init_def split: if_splits)
  from assms w obtain ds so where
    "self = \<lparr>datastore = ds, modbus_server = so, log_file = logfile, site = None,
        http_host = host, http_port = port,
        web_path = path_join (dirname_file env) ''web'',
        web_app = \<lparr>routes = route_table, on_startup = [StartModbusServer],
            on_shutdown = [StopModbusServer]\<rparr>\<rparr>"
    unfolding init_def by (auto elim!: seq_ReturnE)
  then show "web_app self = \<lparr>routes = route_table, on_startup = [StartModbusServer],
            on_shutdown = [StopModbusServer]\<rparr>"
    and "http_host self = host" and "http_port self = port"
    and "web_path self = path_join (dirname_file env) ''web''"
    by simp_all
qed

section \<open>The static file handler\<close>

lemma resolve_get:
  "take 1 p = ''/'' \<Longrightarrow> CHR 0x0A \<notin> set (drop 1 p) \<Longrightarrow> resolve route_table GET p = Some HandleHtml"
  by (simp add: resolve_def route_table_def web_get_def)

text \<open>
  C8. A GET request for \<open>/\<close> and a GET request for \<open>/index.html\<close> both reach the static
  file handler, and the handler gives the same result for the two: with an empty tail
  it puts \<open>index.html\<close> in its place before the path is joined to the asset root, so
  that the one file it opens is \<open>index.html\<close> under the root. A request path that is
  empty altogether is treated in the same way.
\<close>

theorem empty_tail_is_default_document:
  "resolve route_table GET ''/'' = Some HandleHtml
   \<and> resolve route_table GET ''/index.html'' = Some HandleHtml
   \<and> handle_html self rt (req\<lparr>req_path := ''/''\<rparr>)
       = handle_html self rt (req\<lparr>req_path := ''/index.html''\<rparr>)
   \<and> handle_html self rt (req\<lparr>req_path := []\<rparr>)
       = handle_html self rt (req\<lparr>req_path := ''/index.html''\<rparr>)
   \<and> snd (handle_html self rt (req\<lparr>req_path := ''/''\<rparr>))
       = [FileOpen (path_join (web_path self) ''index.html'')]"
  by (simp add: resolve_get handle_html_def Let_def split: option.splits)

theorem empty_tail_is_default_document_witness:
  "handle_html sample_simulator sample_runtime (sample_request GET ''/'')
     = (Return (FileResponse ''/srv/simulator/web/index.html''),
        [FileOpen ''/srv/simulator/web/index.html''])
   \<and> handle_html sample_simulator sample_runtime (sample_request GET ''/index.html'')
     = (Return (FileResponse ''/srv/simulator/web/index.html''),
        [FileOpen ''/srv/simulator/web/index.html''])"
  using empty_tail_is_default_document
    [of sample_simulator sample_runtime "sample_request GET ''/''"]
  by (simp add: handle_html_def sample_simulator_def sample_runtime_def sample_request_def
      path_join_def Let_def)

text \<open>
  C1, as the claim states it, fails. The handler has no containment check: for the
  request path \<open>/../../etc/passwd\<close> it opens the asset root joined with
  \<open>../../etc/passwd\<close>, and where that file exists it answers with a file response for
  it, not with 404, although the path leaves the asset root.
\<close>

theorem traversal_not_rejected:
  "handle_html sample_simulator sample_runtime (sample_request GET ''/../../etc/passwd'')
     = (Return (FileResponse ''/srv/simulator/web/../../etc/passwd''),
        [FileOpen ''/srv/simulator/web/../../etc/passwd''])
   \<and> \<not> spec_within_root (web_path sample_simulator) ''/srv/simulator/web/../../etc/passwd''"
  by (simp add: handle_html_def sample_simulator_def sample_runtime_def sample_request_def
      path_join_def spec_within_root_def Let_def)

text \<open>
  C1, amended. For a GET request whose path tail contains a \<open>..\<close> segment the handler
  does one thing to the file system: it opens the asset root joined with the tail,
  with no check of that path before. It answers 404 (raises HTTPNotFound) when the
  open fails with FileNotFoundError or IsADirectoryError, and answers with a file
  response for the joined path when the open succeeds.
\<close>

theorem traversal_opens_joined_path:
  assumes "req_path req = CHR ''/'' # tail" and "''..'' \<in> set (split_path tail)"
  shows "snd (handle_html self rt req) = [FileOpen (path_join (web_path self) tail)]
    \<and> (open_file rt (path_join (web_path self) tail) = None \<longrightarrow>
         fst (handle_html self rt req) = Return (FileResponse (path_join (web_path self) tail)))
    \<and> (open_file rt (path_join (web_path self) tail) = Some FileNotFoundError
         \<or> open_file rt (path_join (web_path self) tail) = Some IsADirectoryError \<longrightarrow>
         fst (handle_html self rt req) = Raise (HTTPNotFound ''File not found''))"
proof -
  have "tail \<noteq> []" using assms(2) by auto
  then show ?thesis using assms(1)
    by (auto simp: handle_html_def Let_def split: option.splits)
qed

theorem traversal_opens_joined_path_witness:
  "snd (handle_html sample_simulator sample_runtime (sample_request GET ''/../secret''))
     = [FileOpen ''/srv/simulator/web/../secret'']
   \<and> fst (handle_html sample_simulator sample_runtime (sample_request GET ''/../secret''))
     = Raise (HTTPNotFound ''File not found'')
   \<and> fst (handle_html sample_simulator sample_runtime (sample_request GET ''/../../etc/passwd''))
     = Return (FileResponse ''/srv/simulator/web/../../etc/passwd'')"
proof -
  have a: "req_path (sample_request GET ''/../secret'') = CHR ''/'' # ''../secret''"
    and b: "req_path (sample_request GET ''/../../etc/passwd'') = CHR ''/'' # ''../../etc/passwd''"
    by (simp_all add: sample_request_def)
  have c: "''..'' \<in> set (split_path ''../secret'')"
    and d: "''..'' \<in> set (split_path ''../../etc/passwd'')"
    by simp_all
  show ?thesis
    using traversal_opens_joined_path [OF a c, of sample_simulator sample_runtime]
      traversal_opens_joined_path [OF b d, of sample_simulator sample_runtime]
    by (simp add: sample_simulator_def sample_runtime_def path_join_def)
qed

section \<open>Failures of the constructor\<close>

lemma load_custom_actions_cases:
  obtains (returns) a ev where "load_custom_actions env m = (Return a, ev)"
      "\<And>cl fr. ConstructServer cl fr \<notin> set ev"
    | (raises) e ev where "load_custom_actions env m = (Raise e, ev)"
      "\<And>cl fr. ConstructServer cl fr \<notin> set ev"
proof (cases m)
  case None
  then show ?thesis using returns by (simp add: load_custom_actions_def)
next
  case (Some name)
  show ?thesis
  proof (cases "name = []")
    case True
    with Some show ?thesis using returns by (simp add: load_custom_actions_def)
  next
    case False
    show ?thesis
    proof (cases "import_module env name")
      case (Inl e)
      with Some False show ?thesis using raises by (simp add: load_custom_actions_def)
    next
      case (Inr md)
      with Some False show ?thesis using returns raises
        by (cases "custom_actions_dict md") (simp_all add: load_custom_actions_def)
    qed
  qed
qed

lemma load_custom_actions_events:
  "set (snd (load_custom_actions env m)) \<subseteq> range ImportModule"
proof (cases m)
  case None
  then show ?thesis by (simp add: load_custom_actions_def)
next
  case (Some name)
  show ?thesis
  proof (cases "name = []")
    case True
    with Some show ?thesis by (simp add: load_custom_actions_def)
  next
    case False
    show ?thesis
    proof (cases "import_module env name")
      case (Inl e)
      with Some False show ?thesis by (simp add: load_custom_actions_def)
    next
      case (Inr md)
      with Some False show ?thesis
        by (cases "custom_actions_dict md") (simp_all add: load_custom_actions_def)
    qed
  qed
qed

lemma map_of_filter_neq:
  "k' \<noteq> k \<Longrightarrow> map_of (filter (\<lambda>kv. fst kv \<noteq> k) kvs) k' = map_of kvs k'"
  by (induction kvs) auto

lemma lookup_comm_unknown:
  "c \<notin> {JStr ''serial'', JStr ''tcp'', JStr ''tls'', JStr ''udp''} \<Longrightarrow>
     lookup comm_class c = Inl (key_error c)"
  by (cases c) (auto simp: comm_class_def)

lemma lookup_comm_known:
  "c \<in> {JStr ''serial'', JStr ''tcp'', JStr ''tls'', JStr ''udp''} \<Longrightarrow>
     \<exists>cl. lookup comm_class c = Inr cl"
  by (auto simp: comm_class_def)

lemma lookup_framer_unknown:
  "f \<notin> {JStr ''ascii'', JStr ''binary'', JStr ''rtu'', JStr ''socket'', JStr ''tls''} \<Longrightarrow>
     lookup framer_class f = Inl (key_error f)"
  by (cases f) (auto simp: framer_class_def)

lemma make_modbus_server_unknown:
  assumes bad: "map_of server ''comm'' = Some c
        \<and> c \<notin> {JStr ''serial'', JStr ''tcp'', JStr ''tls'', JStr ''udp''}
      \<or> map_of server ''framer'' = Some f
        \<and> f \<notin> {JStr ''ascii'', JStr ''binary'', JStr ''rtu'', JStr ''socket'', JStr ''tls''}"
  shows "make_modbus_server env (JObj server) ds
      = (Raise (case map_of server ''comm'' of
                  None \<Rightarrow> KeyError (JStr ''comm'')
                | Some c' \<Rightarrow>
                    if c' \<in> {JStr ''serial'', JStr ''tcp'', JStr ''tls'', JStr ''udp''}
                    then key_error f else key_error c'), [])"
proof (cases "map_of server ''comm''")
  case None
  then show ?thesis by (simp add: make_modbus_server_def)
next
  case (Some c')
  show ?thesis
  proof (cases "c' \<in> {JStr ''serial'', JStr ''tcp'', JStr ''tls'', JStr ''udp''}")
    case True
    from lookup_comm_known [OF True] obtain cl where cl: "lookup comm_class c' = Inr cl" ..
    have "\<not> (map_of server ''comm'' = Some c
        \<and> c \<notin> {JStr ''serial'', JStr ''tcp'', JStr ''tls'', JStr ''udp''})"
    proof
      assume a: "map_of server ''comm'' = Some c
        \<and> c \<notin> {JStr ''serial'', JStr ''tcp'', JStr ''tls'', JStr ''udp''}"
      then have "c = c'" using Some by simp
      with a True show False by iprover
    qed
    with bad have f: "map_of server ''framer'' = Some f"
      and fb: "f \<notin> {JStr ''ascii'', JStr ''binary'', JStr ''rtu'', JStr ''socket'', JStr ''tls''}"
      by iprover+
    have f': "map_of (filter (\<lambda>kv. fst kv \<noteq> ''comm'') server) ''framer'' = Some f"
      using f by (simp add: map_of_filter_neq)
    have "make_modbus_server env (JObj server) ds = (Raise (key_error f), [])"
      using Some cl f' lookup_framer_unknown [OF fb] by (simp add: make_modbus_server_def)
    then show ?thesis unfolding Some using True by (simp only: option.case if_True)
  next
    case False
    have "make_modbus_server env (JObj server) ds = (Raise (key_error c'), [])"
      using Some lookup_comm_unknown [OF False] by (simp add: make_modbus_server_def)
    then show ?thesis unfolding Some using False by (simp only: option.case if_False)
  qed
qed

text \<open>
  C4, as the claim states it, fails. The constructor has no error class of its own for
  a bad configuration. With the transport \<open>modem\<close> in the server profile it ends with
  the built-in KeyError of the failed lookup in the table of transports; and when the
  constructor of the datastore context raises on the device profile, the constructor
  ends with that exception, here a RuntimeError, before the transport is looked at.
\<close>

theorem unknown_comm_raises_key_error:
  "init modem_env ''server'' ''device'' ''localhost'' 8080 ''server.log'' ''setup.json'' None
     = (Raise (KeyError (JStr ''modem'')), [LoadSetup ''setup.json'', BuildContext])
   \<and> init (modem_env\<lparr>simulator_context_init := (\<lambda>device actions. Some (RuntimeError ''bad device''))\<rparr>)
       ''server'' ''device'' ''localhost'' 8080 ''server.log'' ''setup.json'' None
     = (Raise (RuntimeError ''bad device''), [LoadSetup ''setup.json'', BuildContext])"
  by (simp add: init_def modem_env_def sample_env_def modem_setup_def load_custom_actions_def
      make_modbus_server_def comm_class_def)

text \<open>
  C4, amended. Take a setup document whose selected server profile has a \<open>comm\<close> value
  outside serial, tcp, tls, udp, or a \<open>framer\<close> value outside ascii, binary, rtu,
  socket, tls. Then the constructor raises, and it never calls the constructor of a
  protocol server. When the custom actions are loaded, the device profile is found
  and the datastore context is built, the exception is the built-in one of the first
  failed access: a KeyError for \<open>comm\<close> when the profile has no such key, else the
  error of the table lookup for the \<open>comm\<close> value when that is unknown, else the one
  for the \<open>framer\<close> value; the error of a table lookup is a KeyError with the unknown
  value, or a TypeError when the value is a list or an object. When the loading of
  the custom actions, the selection of the device profile or the construction of
  the datastore context for the selected device raises, the constructor ends with
  that exception.
\<close>

theorem unknown_comm_or_framer_fails:
  assumes web: "web_installed env"
    and load: "load_json env json_file = Inr setup"
    and sl: "getitem setup ''server_list'' = Inr server_list"
    and sp: "getitem server_list server_name = Inr (JObj server)"
    and bad: "map_of server ''comm'' = Some c
        \<and> c \<notin> {JStr ''serial'', JStr ''tcp'', JStr ''tls'', JStr ''udp''}
      \<or> map_of server ''framer'' = Some f
        \<and> f \<notin> {JStr ''ascii'', JStr ''binary'', JStr ''rtu'', JStr ''socket'', JStr ''tls''}"
  shows "(\<exists>e ev. init env server_name device_name host port logfile json_file cam = (Raise e, ev)
        \<and> (\<forall>cl fr. ConstructServer cl fr \<notin> set ev))
    \<and> (\<forall>a ev1 dl device.
          load_custom_actions env cam = (Return a, ev1)
          \<and> getitem setup ''device_list'' = Inr dl
          \<and> getitem dl device_name = Inr device
          \<and> simulator_context_init env device a = None \<longrightarrow>
          init env server_name device_name host port logfile json_file cam
            = (Raise (case map_of server ''comm'' of
                        None \<Rightarrow> KeyError (JStr ''comm'')
                      | Some c' \<Rightarrow>
                          if c' \<in> {JStr ''serial'', JStr ''tcp'', JStr ''tls'', JStr ''udp''}
                          then key_error f else key_error c'),
               LoadSetup json_file # ev1 @ [BuildContext]))
    \<and> (\<forall>e'. fst (load_custom_actions env cam) = Raise e' \<longrightarrow>
          fst (init env server_name device_name host port logfile json_file cam) = Raise e')
    \<and> (\<forall>a e'. fst (load_custom_actions env cam) = Return a
          \<and> getitem setup ''device_list'' = Inl e' \<longrightarrow>
          fst (init env server_name device_name host port logfile json_file cam) = Raise e')
    \<and> (\<forall>a dl e'. fst (load_custom_actions env cam) = Return a
          \<and> getitem setup ''device_list'' = Inr dl
          \<and> getitem dl device_name = Inl e' \<longrightarrow>
          fst (init env server_name device_name host port logfile json_file cam) = Raise e')
    \<and> (\<forall>a dl device e'. fst (load_custom_actions env cam) = Return a
          \<and> getitem setup ''device_list'' = Inr dl
          \<and> getitem dl device_name = Inr device
          \<and> simulator_context_init env device a = Some e' \<longrightarrow>
          fst (init env server_name device_name host port logfile json_file cam) = Raise e')"
proof (cases env cam rule: load_custom_actions_cases)
  case (raises e ev)
  then show ?thesis using web load by (simp add: init_def)
next
  case (returns a ev)
  note acts = returns
  show ?thesis
  proof (cases "getitem setup ''device_list''")
    case (Inl e)
    then show ?thesis using web load sl sp acts by (simp add: init_def)
  next
    case dl: (Inr dl)
    show ?thesis
    proof (cases "getitem dl device_name")
      case (Inl e)
      then show ?thesis using web load sl sp acts dl by (simp add: init_def)
    next
      case dev: (Inr device)
      show ?thesis
      proof (cases "simulator_context_init env device a")
        case (Some e)
        then have "init env server_name device_name host port logfile json_file cam
            = (Raise e, LoadSetup json_file # ev @ [BuildContext])"
          using web load sl sp acts dl dev by (simp add: init_def)
        with Some acts dl dev show ?thesis by simp
      next
        case None
        have "init env server_name device_name host port logfile json_file cam
            = (Raise (case map_of server ''comm'' of
                        None \<Rightarrow> KeyError (JStr ''comm'')
                      | Some c' \<Rightarrow>
                          if c' \<in> {JStr ''serial'', JStr ''tcp'', JStr ''tls'', JStr ''udp''}
                          then key_error f else key_error c'),
               LoadSetup json_file # ev @ [BuildContext])"
          using web load sl sp acts dl dev None
            make_modbus_server_unknown [OF bad, of env
              "ModbusServerContext (ModbusSimulatorContext device a) True"]
          by (simp add: init_def)
        with None acts dl dev show ?thesis by simp
      qed
    qed
  qed
qed

theorem unknown_comm_or_framer_fails_witness:
  "init morse_env ''server'' ''device'' ''localhost'' 8080 ''server.log'' ''setup.json'' None
     = (Raise (KeyError (JStr ''morse'')), [LoadSetup ''setup.json'', BuildContext])"
proof -
  have web: "web_installed morse_env"
    and load: "load_json morse_env ''setup.json'' = Inr morse_setup"
    by (simp_all add: morse_env_def sample_env_def)
  have sl: "getitem morse_setup ''server_list''
      = Inr (JObj [(''server'', JObj [(''comm'', JStr ''tcp''), (''framer'', JStr ''morse'')])])"
    by (simp add: morse_setup_def)
  have sp: "getitem (JObj [(''server'', JObj [(''comm'', JStr ''tcp''), (''framer'', JStr ''morse'')])])
      ''server'' = Inr (JObj [(''comm'', JStr ''tcp''), (''framer'', JStr ''morse'')])"
    by simp
  have bad: "map_of [(''comm'', JStr ''tcp''), (''framer'', JStr ''morse'')] ''comm'' = Some (JStr ''tcp'')
        \<and> JStr ''tcp'' \<notin> {JStr ''serial'', JStr ''tcp'', JStr ''tls'', JStr ''udp''}
      \<or> map_of [(''comm'', JStr ''tcp''), (''framer'', JStr ''morse'')] ''framer'' = Some (JStr ''morse'')
        \<and> JStr ''morse'' \<notin> {JStr ''ascii'', JStr ''binary'', JStr ''rtu'', JStr ''socket'', JStr ''tls''}"
    by simp
  have acts: "load_custom_actions morse_env None = (Return (Unchanged None), [])"
    by (simp add: load_custom_actions_def)
  have dl: "getitem morse_setup ''device_list'' = Inr (JObj [(''device'', JObj [])])"
    by (simp add: morse_setup_def)
  have dev: "getitem (JObj [(''device'', JObj [])]) ''device'' = Inr (JObj [])"
    by simp
  have ctx: "simulator_context_init morse_env (JObj []) (Unchanged None) = None"
    by (simp add: morse_env_def sample_env_def)
  from unknown_comm_or_framer_fails [OF web load sl sp bad,
      of "''device''" "''localhost''" 8080 "''server.log''" None]
  have "init morse_env ''server'' ''device'' ''localhost'' 8080 ''server.log'' ''setup.json'' None
      = (Raise (case map_of [(''comm'', JStr ''tcp''), (''framer'', JStr ''morse'')] ''comm'' of
                  None \<Rightarrow> KeyError (JStr ''comm'')
                | Some c' \<Rightarrow>
                    if c' \<in> {JStr ''serial'', JStr ''tcp'', JStr ''tls'', JStr ''udp''}
                    then key_error (JStr ''morse'') else key_error c'),
         LoadSetup ''setup.json'' # [] @ [BuildContext])"
    using acts dl dev ctx by blast
  then show ?thesis by simp
qed

text \<open>
  C5, as the claim states it, fails. The constructor has no error class of its own for
  a bad configuration. With a device name that the setup document does not have it
  ends with the built-in KeyError for that name; and when a module of custom actions
  is named that cannot be imported, it ends with the exception of the import before
  a profile is looked up.
\<close>

theorem missing_profile_raises_key_error:
  "init sample_env ''server'' ''pump'' ''localhost'' 8080 ''server.log'' ''setup.json'' None
     = (Raise (KeyError (JStr ''pump'')), [LoadSetup ''setup.json''])
   \<and> init sample_env ''server'' ''pump'' ''localhost'' 8080 ''server.log'' ''setup.json''
       (Some ''plugins'')
     = (Raise (OtherException ''ModuleNotFoundError''),
        [LoadSetup ''setup.json'', ImportModule ''plugins''])"
  by (simp add: init_def sample_env_def sample_setup_def load_custom_actions_def)

text \<open>
  C5, amended. Take a setup document in which the requested server name is not a key
  of \<open>server_list\<close>, or the requested device name is not a key of \<open>device_list\<close>. Then
  the constructor raises after it has done no more than read the setup file and load
  the custom actions: neither the datastore context nor a protocol server is
  constructed. When the custom actions are loaded, the exception is the built-in
  KeyError with the missing name, the server name when that is missing and the
  device name otherwise; when their loading raises, the constructor ends with that
  exception.
\<close>

theorem missing_profile_fails:
  assumes web: "web_installed env"
    and load: "load_json env json_file = Inr setup"
    and sl: "getitem setup ''server_list'' = Inr (JObj servers)"
    and dl: "getitem setup ''device_list'' = Inr (JObj devices)"
    and absent: "map_of servers server_name = None \<or> map_of devices device_name = None"
  shows "(\<exists>e. init env server_name device_name host port logfile json_file cam
        = (Raise e, LoadSetup json_file # snd (load_custom_actions env cam)))
    \<and> (\<forall>cl fr. ConstructServer cl fr \<notin> set (snd (load_custom_actions env cam)))
    \<and> BuildContext \<notin> set (snd (load_custom_actions env cam))
    \<and> (\<forall>a. fst (load_custom_actions env cam) = Return a \<longrightarrow>
          fst (init env server_name device_name host port logfile json_file cam)
            = Raise (KeyError (JStr (if map_of servers server_name = None
                                     then server_name else device_name))))
    \<and> (\<forall>e'. fst (load_custom_actions env cam) = Raise e' \<longrightarrow>
          fst (init env server_name device_name host port logfile json_file cam) = Raise e')"
proof -
  have nb: "BuildContext \<notin> set (snd (load_custom_actions env cam))"
    using load_custom_actions_events [of env cam] by auto
  show ?thesis
  proof (cases env cam rule: load_custom_actions_cases)
    case (raises e ev)
    then show ?thesis using web load nb by (simp add: init_def)
  next
    case (returns a ev)
    show ?thesis
    proof (cases "map_of servers server_name")
      case None
      then show ?thesis using web load sl returns nb
        by (simp add: init_def)
    next
      case (Some server)
      with absent have "map_of devices device_name = None" by simp
      then show ?thesis using web load sl dl returns Some nb
        by (simp add: init_def)
    qed
  qed
qed

theorem missing_profile_fails_witness:
  "init sample_env ''gateway'' ''device'' ''localhost'' 8080 ''server.log'' ''setup.json'' None
     = (Raise (KeyError (JStr ''gateway'')), [LoadSetup ''setup.json''])"
proof -
  have web: "web_installed sample_env"
    and load: "load_json sample_env ''setup.json'' = Inr sample_setup"
    by (simp_all add: sample_env_def)
  have sl: "getitem sample_setup ''server_list''
      = Inr (JObj [(''server'',
                   JObj [(''comm'', JStr ''tcp''), (''framer'', JStr ''socket''),
                         (''host'', JStr ''0.0.0.0''), (''port'', JNumber ''5020'')])])"
    and dl: "getitem sample_setup ''device_list'' = Inr (JObj [(''device'', JObj [])])"
    by (simp_all add: sample_setup_def)
  have absent: "map_of [(''server'',
                   JObj [(''comm'', JStr ''tcp''), (''framer'', JStr ''socket''),
                         (''host'', JStr ''0.0.0.0''), (''port'', JNumber ''5020'')])] ''gateway'' = None
      \<or> map_of [(''device'', JObj [])] ''device'' = None"
    by simp
  have acts: "load_custom_actions sample_env None = (Return (Unchanged None), [])"
    by (simp add: load_custom_actions_def)
  from missing_profile_fails [OF web load sl dl absent,
      of "''localhost''" 8080 "''server.log''" None]
  obtain e where run: "init sample_env ''gateway'' ''device'' ''localhost'' 8080 ''server.log''
        ''setup.json'' None = (Raise e, LoadSetup ''setup.json'' # snd (load_custom_actions sample_env None))"
    and err: "\<forall>a. fst (load_custom_actions sample_env None) = Return a \<longrightarrow>
        fst (init sample_env ''gateway'' ''device'' ''localhost'' 8080 ''server.log''
          ''setup.json'' None)
          = Raise (KeyError (JStr (if map_of [(''server'',
                   JObj [(''comm'', JStr ''tcp''), (''framer'', JStr ''socket''),
                         (''host'', JStr ''0.0.0.0''), (''port'', JNumber ''5020'')])] ''gateway'' = None
                then ''gateway'' else ''device'')))"
    by blast
  from err acts run show ?thesis by simp
qed

section \<open>Startup and shutdown\<close>

lemma start_modbus_server_cases:
  "start_modbus_server rt app =
     (if has_start rt then
        (case start rt of
           Return _ \<Rightarrow>
             (case create_task rt of
                Return t \<Rightarrow> (Return (app(''modbus_server'' \<mapsto> t)),
                    [ServerStart, CreateTask, LogInfo ''Modbus server started''])
              | Raise e \<Rightarrow> (Raise e, [ServerStart, CreateTask]
                    @ (if is_Exception e then [LogError ''Error starting modbus server, reason: '' e] else []))
              | Diverge \<Rightarrow> (Diverge, [ServerStart, CreateTask]))
         | Raise e \<Rightarrow> (Raise e, [ServerStart]
                    @ (if is_Exception e then [LogError ''Error starting modbus server, reason: '' e] else []))
         | Diverge \<Rightarrow> (Diverge, [ServerStart]))
      else
        (case create_task rt of
           Return t \<Rightarrow> (Return (app(''modbus_server'' \<mapsto> t)),
               [CreateTask, LogInfo ''Modbus server started''])
         | Raise e \<Rightarrow> (Raise e, [CreateTask]
               @ (if is_Exception e then [LogError ''Error starting modbus server, reason: '' e] else []))
         | Diverge \<Rightarrow> (Diverge, [CreateTask])))"
  by (simp add: start_modbus_server_def split: result.splits)

lemma start_modbus_server_no_site:
  "SiteStart h p \<notin> set (snd (start_modbus_server rt app))"
  by (simp add: start_modbus_server_cases split: result.splits)

lemma start_modbus_server_Return:
  assumes "start_modbus_server rt app = (Return app', ev)"
  shows "CreateTask \<in> set ev \<and> last ev = LogInfo ''Modbus server started''"
  using assms by (auto simp: start_modbus_server_cases split: result.splits if_splits)

lemma start_modbus_server_Raise:
  assumes "has_start rt \<and> start rt = Raise exc
      \<or> (has_start rt \<longrightarrow> start rt = Return ()) \<and> create_task rt = Raise exc"
  shows "fst (start_modbus_server rt app) = Raise exc"
    and "is_Exception exc \<Longrightarrow>
      last (snd (start_modbus_server rt app)) = LogError ''Error starting modbus server, reason: '' exc"
  using assms by (auto simp: start_modbus_server_cases split: result.splits)

lemma run_forever_cases:
  assumes "on_startup (web_app self) = [StartModbusServer]"
  shows "run_forever self rt app =
     (case start_modbus_server rt app of
        (Return app', ev) \<Rightarrow>
          (case site_start rt of
             Return _ \<Rightarrow> (loop_run_forever rt,
                 RunnerSetup # ev @ [SiteStart (http_host self) (http_port self),
                   LogInfo ''HTTP server started'', LoopRunForever])
           | Raise e \<Rightarrow> (Raise e, RunnerSetup # ev @ [SiteStart (http_host self) (http_port self)]
                 @ (if is_Exception e then [LogError ''Error starting http server, reason: '' e] else []))
           | Diverge \<Rightarrow> (Diverge, RunnerSetup # ev @ [SiteStart (http_host self) (http_port self)]))
      | (Raise e, ev) \<Rightarrow> (Raise e, RunnerSetup # ev
            @ (if is_Exception e then [LogError ''Error starting http server, reason: '' e] else []))
      | (Diverge, ev) \<Rightarrow> (Diverge, RunnerSetup # ev))"
proof (cases "start_modbus_server rt app")
  case (Pair r ev)
  then show ?thesis using assms
    by (cases r; cases "site_start rt") (simp_all add: run_forever_def)
qed

text \<open>
  C2, as the claim states it, fails. The \<open>except\<close> clause of the startup hook catches
  instances of \<open>Exception\<close> only. When the awaited \<open>start\<close> ends with the cancellation
  signal, which derives from BaseException, the hook and \<open>run_forever\<close> end with that
  signal and nothing is logged.
\<close>

theorem cancelled_start_is_not_logged:
  "start_modbus_server (sample_runtime\<lparr>start := Raise CancelledError\<rparr>) Map.empty
     = (Raise CancelledError, [ServerStart])
   \<and> run_forever sample_simulator (sample_runtime\<lparr>start := Raise CancelledError\<rparr>) Map.empty
     = (Raise CancelledError, [RunnerSetup, ServerStart])"
  by (simp add: run_forever_def start_modbus_server_def sample_runtime_def sample_simulator_def)

text \<open>
  C2, amended. Let the protocol server's \<open>start\<close> raise, or let the scheduling of its
  serve loop raise after \<open>start\<close> went well. Then the startup hook ends by raising that
  same exception, whatever it is. When it is an instance of \<open>Exception\<close>, the last thing
  the hook does before is to log it as an error; when it derives from BaseException
  only, the hook logs no error. The startup signal of the application of any
  constructed server fails with the exception, \<open>run_forever\<close> raises it, and the TCP
  site is never started.
\<close>

theorem startup_failure_is_reraised:
  assumes init: "init env server_name device_name host port logfile json_file cam = (Return self, ev0)"
    and fail: "has_start rt \<and> start rt = Raise exc
      \<or> (has_start rt \<longrightarrow> start rt = Return ()) \<and> create_task rt = Raise exc"
  shows "fst (start_modbus_server rt app) = Raise exc
    \<and> (is_Exception exc \<longrightarrow>
         last (snd (start_modbus_server rt app))
           = LogError ''Error starting modbus server, reason: '' exc)
    \<and> (\<not> is_Exception exc \<longrightarrow>
         (\<forall>prefix e. LogError prefix e \<notin> set (snd (start_modbus_server rt app))))
    \<and> fst (send rt (on_startup (web_app self)) app) = Raise exc
    \<and> fst (run_forever self rt app) = Raise exc
    \<and> (\<forall>h p. SiteStart h p \<notin> set (snd (run_forever self rt app)))"
proof -
  have hooks: "on_startup (web_app self) = [StartModbusServer]"
    using init_Return(1) [OF init] by simp
  obtain ev where r: "start_modbus_server rt app = (Raise exc, ev)"
    using start_modbus_server_Raise(1) [OF fail, of app]
    by (cases "start_modbus_server rt app") simp
  have ns: "\<And>h p. SiteStart h p \<notin> set ev"
    using start_modbus_server_no_site [of _ _ rt app] r by simp
  have nolog: "\<not> is_Exception exc \<longrightarrow>
      (\<forall>prefix e. LogError prefix e \<notin> set (snd (start_modbus_server rt app)))"
    using fail by (auto simp: start_modbus_server_cases split: result.splits)
  have "fst (send rt (on_startup (web_app self)) app) = Raise exc"
    using hooks r by simp
  moreover have "fst (run_forever self rt app) = Raise exc"
    and "\<forall>h p. SiteStart h p \<notin> set (snd (run_forever self rt app))"
    using r ns by (simp_all add: run_forever_cases [OF hooks])
  ultimately show ?thesis
    using start_modbus_server_Raise [OF fail, of app] nolog by blast
qed

theorem startup_failure_is_reraised_witness:
  "run_forever sample_simulator (sample_runtime\<lparr>start := Raise (OtherException ''OSError'')\<rparr>) Map.empty
     = (Raise (OtherException ''OSError''),
        [RunnerSetup, ServerStart,
         LogError ''Error starting modbus server, reason: '' (OtherException ''OSError''),
         LogError ''Error starting http server, reason: '' (OtherException ''OSError'')])"
proof -
  have fail: "has_start (sample_runtime\<lparr>start := Raise (OtherException ''OSError'')\<rparr>)
        \<and> start (sample_runtime\<lparr>start := Raise (OtherException ''OSError'')\<rparr>)
            = Raise (OtherException ''OSError'')
      \<or> (has_start (sample_runtime\<lparr>start := Raise (OtherException ''OSError'')\<rparr>) \<longrightarrow>
            start (sample_runtime\<lparr>start := Raise (OtherException ''OSError'')\<rparr>) = Return ())
        \<and> create_task (sample_runtime\<lparr>start := Raise (OtherException ''OSError'')\<rparr>)
            = Raise (OtherException ''OSError'')"
    by (simp add: sample_runtime_def)
  have hooks: "on_startup (web_app sample_simulator) = [StartModbusServer]"
    by (simp add: sample_simulator_def)
  show ?thesis
    using startup_failure_is_reraised [OF init_sample fail, of Map.empty]
    by (simp add: run_forever_cases [OF hooks] start_modbus_server_cases sample_runtime_def)
qed

text \<open>
  C3. In a run of \<open>run_forever\<close> on a constructed server, the TCP site is started only
  after the startup hook has returned: whenever the start of the site is among the
  events of the run, the events before it are the setup of the runner followed by the
  whole run of the startup hook, which has created the serve task and has ended with
  its message, and the site is started nowhere else. When the hook does not return,
  because it raises or because the awaited \<open>start\<close> never completes, the site is not
  started at all. The order comes from the constructor, which has put the hook into
  the startup list of the application that \<open>run_forever\<close> sets up.
\<close>

theorem startup_hook_precedes_listener:
  assumes init: "init env server_name device_name host port logfile json_file cam = (Return self, ev0)"
  shows "on_startup (web_app self) = [StartModbusServer]
    \<and> (\<forall>h p. SiteStart h p \<in> set (snd (run_forever self rt app)) \<longrightarrow>
         (\<exists>app' ev post. start_modbus_server rt app = (Return app', ev)
            \<and> snd (run_forever self rt app) = RunnerSetup # ev @ SiteStart h p # post
            \<and> CreateTask \<in> set ev \<and> last ev = LogInfo ''Modbus server started''
            \<and> (\<forall>h' p'. SiteStart h' p' \<notin> set ev \<and> SiteStart h' p' \<notin> set post)))
    \<and> ((\<forall>app'. fst (start_modbus_server rt app) \<noteq> Return app') \<longrightarrow>
         (\<forall>h p. SiteStart h p \<notin> set (snd (run_forever self rt app))))"
proof -
  have hooks: "on_startup (web_app self) = [StartModbusServer]"
    using init_Return(1) [OF init] by simp
  obtain r ev where r: "start_modbus_server rt app = (r, ev)"
    by (cases "start_modbus_server rt app")
  have ns: "\<And>h p. SiteStart h p \<notin> set ev"
    using start_modbus_server_no_site [of _ _ rt app] r by simp
  show ?thesis
  proof (cases r)
    case (Return app')
    have ev: "CreateTask \<in> set ev \<and> last ev = LogInfo ''Modbus server started''"
      using start_modbus_server_Return r Return by blast
    show ?thesis
      using hooks r Return ev ns
      by (cases "site_start rt") (auto simp: run_forever_cases [OF hooks])
  next
    case (Raise e)
    then show ?thesis using hooks r ns by (auto simp: run_forever_cases [OF hooks])
  next
    case Diverge
    then show ?thesis using hooks r ns by (auto simp: run_forever_cases [OF hooks])
  qed
qed

theorem startup_hook_precedes_listener_witness:
  "on_startup (web_app sample_simulator) = [StartModbusServer]
   \<and> run_forever sample_simulator sample_runtime Map.empty
     = (Diverge,
        [RunnerSetup, ServerStart, CreateTask, LogInfo ''Modbus server started'',
         SiteStart ''localhost'' 8080, LogInfo ''HTTP server started'', LoopRunForever])
   \<and> start_modbus_server sample_runtime Map.empty
     = (Return (Map.empty(''modbus_server'' \<mapsto> Task 1)),
        [ServerStart, CreateTask, LogInfo ''Modbus server started''])
   \<and> run_forever sample_simulator (sample_runtime\<lparr>start := Diverge\<rparr>) Map.empty
     = (Diverge, [RunnerSetup, ServerStart])"
proof -
  have hooks: "on_startup (web_app sample_simulator) = [StartModbusServer]"
    using startup_hook_precedes_listener [OF init_sample, of sample_runtime Map.empty]
    by (rule conjunct1)
  have never: "run_forever sample_simulator (sample_runtime\<lparr>start := Diverge\<rparr>) Map.empty
     = (Diverge, [RunnerSetup, ServerStart])"
    unfolding run_forever_cases [OF hooks]
    by (simp add: start_modbus_server_cases sample_runtime_def)
  have st: "start_modbus_server sample_runtime Map.empty
     = (Return (Map.empty(''modbus_server'' \<mapsto> Task 1)),
        [ServerStart, CreateTask, LogInfo ''Modbus server started''])"
    by (simp add: start_modbus_server_cases sample_runtime_def)
  have "run_forever sample_simulator sample_runtime Map.empty
     = (Diverge,
        [RunnerSetup, ServerStart, CreateTask, LogInfo ''Modbus server started'',
         SiteStart ''localhost'' 8080, LogInfo ''HTTP server started'', LoopRunForever])"
    unfolding run_forever_cases [OF hooks] st
    by (simp add: sample_runtime_def sample_simulator_def)
  with hooks st never show ?thesis by simp
qed

text \<open>
  C6. The constructor has put the shutdown hook into the shutdown list of the
  application. With a task stored in the slot of the application, the shutdown
  signal first requests the cancellation of that task and then awaits the same task;
  nothing but the closing log line can follow. The signal returns only when the
  awaited task has come to its end, and when the task never does, the signal never
  returns either.
\<close>

theorem shutdown_cancels_then_awaits:
  assumes init: "init env server_name device_name host port logfile json_file cam = (Return self, ev0)"
    and slot: "app ''modbus_server'' = Some t"
  shows "on_shutdown (web_app self) = [StopModbusServer]
    \<and> snd (send rt (on_shutdown (web_app self)) app)
      = [LogInfo ''Stopping modbus server'', CancelTask t, AwaitTask t]
        @ (if await_task rt t = Return () then [LogInfo ''Modbus server Stopped''] else [])
    \<and> (\<forall>app'. fst (send rt (on_shutdown (web_app self)) app) = Return app' \<longrightarrow>
          await_task rt t = Return () \<and> app' = app)
    \<and> (await_task rt t = Diverge \<longrightarrow> fst (send rt (on_shutdown (web_app self)) app) = Diverge)"
proof -
  have hooks: "on_shutdown (web_app self) = [StopModbusServer]"
    using init_Return(1) [OF init] by simp
  show ?thesis
    using slot unfolding hooks
    by (cases "await_task rt t") (simp_all add: stop_modbus_server_def app_getitem_def)
qed

theorem shutdown_cancels_then_awaits_witness:
  "send (sample_runtime\<lparr>await_task := (\<lambda>t. Return ())\<rparr>) (on_shutdown (web_app sample_simulator))
       (Map.empty(''modbus_server'' \<mapsto> Task 1))
     = (Return (Map.empty(''modbus_server'' \<mapsto> Task 1)),
        [LogInfo ''Stopping modbus server'', CancelTask (Task 1), AwaitTask (Task 1),
         LogInfo ''Modbus server Stopped''])"
proof -
  have slot: "(Map.empty(''modbus_server'' \<mapsto> Task 1)) ''modbus_server'' = Some (Task 1)"
    by simp
  have hooks: "on_shutdown (web_app sample_simulator) = [StopModbusServer]"
    using slot shutdown_cancels_then_awaits
      [where app = "Map.empty(''modbus_server'' \<mapsto> Task 1)" and t = "Task 1",
        OF init_sample]
    by simp
  show ?thesis
    unfolding hooks by (simp add: stop_modbus_server_def app_getitem_def)
qed

text \<open>
  C7. The code does not do what the claim says. On the ordinary path of a shutdown
  the task that was just cancelled ends with the cancellation signal when it is
  awaited. The shutdown hook has no handler for it: the hook ends with that signal,
  logs no error, and never reaches its closing log line.
\<close>

theorem shutdown_propagates_cancellation:
  "stop_modbus_server sample_runtime (Map.empty(''modbus_server'' \<mapsto> Task 1))
     = (Raise CancelledError,
        [LogInfo ''Stopping modbus server'', CancelTask (Task 1), AwaitTask (Task 1)])"
  by (simp add: stop_modbus_server_def app_getitem_def sample_runtime_def)

section \<open>Routing\<close>

lemma resolve_route_table:
  "resolve route_table m p =
     (if (m = GET \<or> m = HEAD) \<and> take 1 p = ''/'' \<and> CHR 0x0A \<notin> set (drop 1 p) then Some HandleHtml
      else if m = POST \<and> p = ''/api'' then Some HandleApi
      else if m = POST \<and> p = ''/api/data'' then Some HandleApiData
      else if m = POST \<and> p = ''/api/request'' then Some HandleApiRequest
      else None)"
  by (auto simp: resolve_def route_table_def web_get_def web_post_def)




text \<open>
  C10. On a constructed server a GET request to \<open>/api\<close>, \<open>/api/data\<close> or
  \<open>/api/request\<close> goes to the static file handler, since the pattern of the GET route
  matches every path. No request reaches one of the three API handlers unless its
  method is POST. Where the asset root has no file of the name, such a GET request
  is answered with 404.
\<close>

theorem get_goes_to_static_handler:
  assumes init: "init env server_name device_name host port logfile json_file cam = (Return self, ev0)"
  shows "resolve (routes (web_app self)) GET ''/api'' = Some HandleHtml
    \<and> resolve (routes (web_app self)) GET ''/api/data'' = Some HandleHtml
    \<and> resolve (routes (web_app self)) GET ''/api/request'' = Some HandleHtml
    \<and> (\<forall>m p h. resolve (routes (web_app self)) m p = Some h \<and> h \<noteq> HandleHtml \<longrightarrow> m = POST)
    \<and> (\<forall>req. req_method req = GET
          \<and> req_path req \<in> {''/api'', ''/api/data'', ''/api/request''} \<longrightarrow>
          serve self rt req = Some (handle_html self rt req))
    \<and> (\<forall>req. req_method req = GET
          \<and> req_path req \<in> {''/api'', ''/api/data'', ''/api/request''}
          \<and> open_file rt (path_join (web_path self) (drop 1 (req_path req)))
              = Some FileNotFoundError \<longrightarrow>
          fst (handle_html self rt req) = Raise (HTTPNotFound ''File not found''))"
proof -
  have routes: "routes (web_app self) = route_table"
    using init_Return(1) [OF init] by simp
  show ?thesis
    by (auto simp: serve_def routes resolve_route_table handle_html_def Let_def
        split: if_splits)
qed

theorem get_goes_to_static_handler_witness:
  "serve sample_simulator sample_runtime (sample_request GET ''/api/data'')
     = Some (Raise (HTTPNotFound ''File not found''), [FileOpen ''/srv/simulator/web/api/data''])
   \<and> resolve (routes (web_app sample_simulator)) GET ''/api/data'' = Some HandleHtml
   \<and> resolve (routes (web_app sample_simulator)) POST ''/api/data'' = Some HandleApiData"
proof -
  have "resolve (routes (web_app sample_simulator)) GET ''/api/data'' = Some HandleHtml"
    using get_goes_to_static_handler [OF init_sample, of sample_runtime] by simp
  then show ?thesis
    by (simp add: serve_def resolve_route_table sample_simulator_def sample_request_def
        sample_runtime_def handle_html_def path_join_def Let_def)
qed

end
